theory Spec2Isabelle
  imports Complex_Main
begin

section \<open>Shepherd: tag feed and contextual ad selector (shepherd.js)\<close>

text \<open>
  The module keeps four private variables (\<open>config\<close>, \<open>feedEl\<close>, \<open>adSlotEl\<close>,
  \<open>observer\<close>) and a constant \<open>providerList\<close>. Its functions are embedded as
  functions on a record of these variables. JavaScript values are typed as the
  documented option shapes: numbers that are counts, indices or pixel sizes are \<open>int\<close>
  or \<open>nat\<close>, strings are \<open>string\<close>, \<open>null\<close>/\<open>undefined\<close> is \<open>None\<close>.
  A thrown exception is a value of type \<open>error\<close>.
\<close>

subsection \<open>Data\<close>

record tag =
  tag_text :: string
  tag_keywords :: "string list"

record config =
  feedElementId :: string
  adSlotId :: string
  visibleTagCount :: int
  tagSpacingPx :: int
  tags :: "tag list"

text \<open>
  The options object handed to \<open>init\<close>. A field that is absent (\<open>undefined\<close>) or
  \<open>null\<close> is \<open>None\<close>; \<open>opt_tags\<close> is \<open>None\<close> for every value on which
  \<open>Array.isArray\<close> is false.
\<close>

record options =
  opt_feedElementId :: "string option"
  opt_adSlotId :: "string option"
  opt_visibleTagCount :: "int option"
  opt_tagSpacingPx :: "int option"
  opt_tags :: "tag list option"

datatype error = Error string | TypeError

text \<open>The en dash of the two messages of \<open>init\<close>, as its UTF-8 bytes.\<close>

definition endash :: string where
  "endash = [CHR 0xE2, CHR 0x80, CHR 0x93]"

definition missing_options_msg :: string where
  "missing_options_msg = ''Shepherd.init '' @ endash @ '' missing required options''"

definition not_located_msg :: string where
  "not_located_msg = ''Shepherd.init '' @ endash @ '' could not locate feed or ad elements''"

subsection \<open>The provider loop of \<open>fetchAndRenderAd\<close>\<close>

text \<open>
  \<open>fetchAdFromProvider\<close> is asynchronous: the promise it returns is fulfilled with an
  ad object or with \<open>null\<close>, or it is rejected. The source's own body is a placeholder
  (``replace with real SDK / HTTP call per provider''), so the engine is modelled over
  an arbitrary adapter that maps a provider and a keyword pool to the settled result.
  The adapter is assumed to settle, as a total function does.
\<close>

record ad =
  html :: string

datatype fetch_result = Fulfilled "ad option" | Rejected

type_synonym provider_adapter = "string \<Rightarrow> string list \<Rightarrow> fetch_result"

definition providerList :: "string list" where
  "providerList = [''carbon'', ''facebook'', ''google'']"

definition empty_pool_html :: string where
  "empty_pool_html = ''<p>No relevant ad (no keywords visible).</p>''"

definition no_match_html :: string where
  "no_match_html = ''<p>No suitable ad found for the current tags.</p>''"

text \<open>
  One pass through the body of the \<open>for\<close> loop, after the \<open>await\<close> has settled.
  \<open>slot\<close> says whether \<open>adSlotEl\<close> is an element (assigning \<open>innerHTML\<close> of
  \<open>null\<close> raises a TypeError, which the \<open>catch\<close> of the loop body receives like a
  provider failure). \<open>Return h\<close>: the markup \<open>h\<close> was assigned to the ad slot and the
  function returned. \<open>Continue w\<close>: the loop goes on, and \<open>w\<close> says whether
  \<open>console.warn\<close> was called for this provider.
\<close>

datatype iteration = Return string | Continue bool

definition loop_body :: "bool \<Rightarrow> fetch_result \<Rightarrow> iteration" where
  "loop_body slot r =
     (case r of
        Fulfilled a \<Rightarrow>
          (case a of
             None \<Rightarrow> Continue False
           | Some x \<Rightarrow>
               if html x \<noteq> [] then (if slot then Return (html x) else Continue True)
               else Continue False)
      | Rejected \<Rightarrow> Continue True)"

text \<open>
  What one run of \<open>fetchAndRenderAd\<close> does to the outside: the calls of
  \<open>fetchAdFromProvider\<close> (provider and keyword argument, in call order), the providers
  named in \<open>console.warn\<close>, every markup assigned to \<open>adSlotEl.innerHTML\<close>, and
  whether the promise of the run was rejected (an uncaught TypeError).
\<close>

record run_result =
  r_calls :: "(string \<times> string list) list"
  r_warnings :: "string list"
  r_renders :: "string list"
  r_rejected :: bool

definition write_slot :: "bool \<Rightarrow> string \<Rightarrow> run_result" where
  "write_slot slot m =
     (if slot then \<lparr>r_calls = [], r_warnings = [], r_renders = [m], r_rejected = False\<rparr>
      else \<lparr>r_calls = [], r_warnings = [], r_renders = [], r_rejected = True\<rparr>)"

fun try_providers :: "bool \<Rightarrow> provider_adapter \<Rightarrow> string list \<Rightarrow> string list \<Rightarrow> run_result" where
  "try_providers slot fetch kw [] = write_slot slot no_match_html"
| "try_providers slot fetch kw (p # ps) =
     (case loop_body slot (fetch p kw) of
        Return h \<Rightarrow>
          \<lparr>r_calls = [(p, kw)], r_warnings = [], r_renders = [h], r_rejected = False\<rparr>
      | Continue w \<Rightarrow>
          (let r = try_providers slot fetch kw ps
           in r\<lparr>r_calls := (p, kw) # r_calls r,
                r_warnings := (if w then [p] else []) @ r_warnings r\<rparr>))"

definition fetchAndRenderAd :: "bool \<Rightarrow> provider_adapter \<Rightarrow> string list \<Rightarrow> run_result" where
  "fetchAndRenderAd slot fetch kw =
     (if kw = [] then write_slot slot empty_pool_html
      else try_providers slot fetch kw providerList)"

text \<open>The test \<open>ad && ad.html\<close>: the markup of a result that is an ad with non-empty markup.\<close>

definition match_of :: "fetch_result \<Rightarrow> string option" where
  "match_of r =
     (case r of
        Fulfilled a \<Rightarrow> (case a of None \<Rightarrow> None | Some x \<Rightarrow> if html x \<noteq> [] then Some (html x) else None)
      | Rejected \<Rightarrow> None)"


subsection \<open>The placeholder adapter \<open>fetchAdFromProvider\<close>\<close>

text \<open>
  The demo body of \<open>fetchAdFromProvider\<close>, after its simulated latency: a provider
  matches when some keyword, in lower case, contains the provider's name. Strings are
  byte strings here and \<open>toLowerCase\<close> maps the letters A to Z only, so the model
  covers ASCII keywords. \<open>dummyAds\<close> is looked up by its own three properties.
\<close>

definition toLowerCase :: "string \<Rightarrow> string" where
  "toLowerCase k =
     map (\<lambda>c. let n = (of_char c :: nat) in if 65 \<le> n \<and> n \<le> 90 then char_of (n + 32) else c) k"

fun js_includes :: "string \<Rightarrow> string \<Rightarrow> bool" where
  "js_includes [] sub = (sub = [])"
| "js_includes (c # cs) sub = (take (length sub) (c # cs) = sub \<or> js_includes cs sub)"

definition carbon_ad :: string where
  \<open>carbon_ad =
     ''<a href="https://www.carbonads.com/" target="_blank">\<newline>'' @
     ''                <img src="https://placehold.co/300x100?text=Carbon+Ad" alt="Carbon Ad">\<newline>'' @
     ''              </a>''\<close>

definition facebook_ad :: string where
  \<open>facebook_ad =
     ''<div style="background:#4267B2;color:#fff;padding:10px;">\<newline>'' @
     ''                  Facebook Audience Network placeholder\<newline>'' @
     ''                 </div>''\<close>

definition google_ad :: string where
  \<open>google_ad =
     ''<div style="border:1px solid #ccc;padding:10px;">\<newline>'' @
     ''                Google AdSense placeholder\<newline>'' @
     ''               </div>''\<close>

definition dummyAds :: "string \<Rightarrow> string option" where
  "dummyAds = map_of [(''carbon'', carbon_ad), (''facebook'', facebook_ad), (''google'', google_ad)]"

definition fetchAdFromProvider :: provider_adapter where
  "fetchAdFromProvider provider kw =
     (if \<not> list_ex (\<lambda>k. js_includes (toLowerCase k) provider) kw then Fulfilled None
      else Fulfilled (Some \<lparr>html = (case dummyAds provider of Some h \<Rightarrow> h | None \<Rightarrow> [])\<rparr>))"

subsection \<open>The page and the module state\<close>

text \<open>
  A tag element made by \<open>createTagElement\<close>: its \<open>data-idx\<close>, its text, and whether its
  class list holds \<open>active\<close>. An element of the page is known by the tag elements
  appended to it, its other markup (\<open>innerHTML\<close>) and its \<open>--tag-spacing\<close> property.
  The feed and the ad slot are taken to be two different elements, so each variable
  holds the element's value. A document maps an id to the element it names.
\<close>

record tag_element =
  el_idx :: nat
  el_text :: string
  el_active :: bool

record element =
  tag_nodes :: "tag_element list"
  innerHTML :: string
  tag_spacing :: "string option"

type_synonym document = "string \<Rightarrow> element option"

text \<open>An IntersectionObserver entry: the \<open>data-idx\<close> of its target, and \<open>isIntersecting\<close>.\<close>

record entry =
  target :: nat
  isIntersecting :: bool

text \<open>
  What \<open>getBoundingClientRect().right\<close> returns for the feed and for the tag element
  with a given \<open>data-idx\<close>.
\<close>

record layout =
  feed_right :: real
  tag_right :: "nat \<Rightarrow> real"

text \<open>
  An invocation of the asynchronous \<open>fetchAndRenderAd\<close> that the caller does not
  await: it is suspended at the \<open>await\<close> on one provider with the later providers
  still to try, or it has returned, or it has thrown.
\<close>

datatype run_status = Awaiting string "string list" | Returned | Threw

record run =
  run_pool :: "string list"
  run_status :: run_status

text \<open>
  The four variables of the module, every invocation of \<open>fetchAndRenderAd\<close> in the
  order of the calls, and three traces: the calls of \<open>fetchAdFromProvider\<close>, the
  providers named by \<open>console.warn\<close>, and the markups assigned to the ad slot.
\<close>

record state =
  config :: "config option"
  feedEl :: "element option"
  adSlotEl :: "element option"
  observer :: "nat list option"
  runs :: "run list"
  provider_calls :: "(string \<times> string list) list"
  console_warnings :: "string list"
  ad_renders :: "string list"

definition initial_state :: state where
  "initial_state =
     \<lparr>config = None, feedEl = None, adSlotEl = None, observer = None, runs = [],
      provider_calls = [], console_warnings = [], ad_renders = []\<rparr>"

subsection \<open>Rendering the tags\<close>

fun digits :: "nat \<Rightarrow> string" where
  "digits n = (if n < 10 then [char_of (48 + n)] else digits (n div 10) @ [char_of (48 + n mod 10)])"

declare digits.simps [simp del]

text \<open>The template literal \<open>${px}px\<close> for an integer \<open>px\<close>.\<close>

definition px_string :: "int \<Rightarrow> string" where
  "px_string px = (if px < 0 then ''-'' @ digits (nat (- px)) else digits (nat px)) @ ''px''"

definition createTagElement :: "tag \<Rightarrow> nat \<Rightarrow> tag_element" where
  "createTagElement t index = \<lparr>el_idx = index, el_text = tag_text t, el_active = False\<rparr>"

definition renderTags :: "config \<Rightarrow> element \<Rightarrow> element" where
  "renderTags c f =
     f\<lparr>innerHTML := [],
       tag_nodes := map (\<lambda>(t, i). createTagElement t i) (zip (tags c) [0..<length (tags c)]),
       tag_spacing := Some (px_string (tagSpacingPx c))\<rparr>"

text \<open>The targets the new observer observes: every tag element of the feed.\<close>

definition setupVisibilityObserver :: "element \<Rightarrow> nat list" where
  "setupVisibilityObserver f = map el_idx (tag_nodes f)"

subsection \<open>\<open>fetchAndRenderAd\<close> as a suspended invocation\<close>

text \<open>
  Assigning \<open>adSlotEl.innerHTML\<close> replaces the content of the ad slot; on \<open>null\<close> it
  raises.
\<close>

definition assign_ad :: "string \<Rightarrow> state \<Rightarrow> state option" where
  "assign_ad m s =
     (case adSlotEl s of
        None \<Rightarrow> None
      | Some e \<Rightarrow>
          Some (s\<lparr>adSlotEl := Some (e\<lparr>innerHTML := m, tag_nodes := []\<rparr>),
                  ad_renders := ad_renders s @ [m]\<rparr>))"

definition set_status :: "nat \<Rightarrow> run_status \<Rightarrow> state \<Rightarrow> state" where
  "set_status i st s = s\<lparr>runs := (runs s)[i := (runs s ! i)\<lparr>run_status := st\<rparr>]\<rparr>"

text \<open>An assignment to the ad slot outside the \<open>try\<close>, followed by the end of the run.\<close>

definition render_and_leave :: "nat \<Rightarrow> string \<Rightarrow> state \<Rightarrow> state" where
  "render_and_leave i m s =
     (case assign_ad m s of None \<Rightarrow> set_status i Threw s | Some s' \<Rightarrow> set_status i Returned s')"

text \<open>
  The head of the \<open>for\<close> loop of run \<open>i\<close>: with a provider left, call it and suspend
  at the \<open>await\<close>; with none left, fall out of the loop to the last assignment.
\<close>

fun next_provider :: "nat \<Rightarrow> string list \<Rightarrow> string list \<Rightarrow> state \<Rightarrow> state" where
  "next_provider i kw [] s = render_and_leave i no_match_html s"
| "next_provider i kw (p # ps) s =
     set_status i (Awaiting p ps) (s\<lparr>provider_calls := provider_calls s @ [(p, kw)]\<rparr>)"

text \<open>The call \<open>fetchAndRenderAd(keywords)\<close>: the body runs up to its first \<open>await\<close>.\<close>

definition call_fetchAndRenderAd :: "string list \<Rightarrow> state \<Rightarrow> state" where
  "call_fetchAndRenderAd kw s =
     (let i = length (runs s);
          s1 = s\<lparr>runs := runs s @ [\<lparr>run_pool = kw, run_status = Returned\<rparr>]\<rparr>
      in if kw = [] then render_and_leave i empty_pool_html s1
         else next_provider i kw providerList s1)"

text \<open>
  The promise that run \<open>i\<close> awaits settles with \<open>r\<close>: the run goes through the loop
  body and on to the next provider. The assignment of a matching ad is inside the
  \<open>try\<close>; \<open>loop_body\<close> returns \<open>Return\<close> only when the ad slot is an element.
\<close>

definition resume_fetchAndRenderAd :: "nat \<Rightarrow> fetch_result \<Rightarrow> state \<Rightarrow> state" where
  "resume_fetchAndRenderAd i r s =
     (if i < length (runs s) then
        (case run_status (runs s ! i) of
           Awaiting p ps \<Rightarrow>
             (case loop_body (adSlotEl s \<noteq> None) r of
                Return h \<Rightarrow> render_and_leave i h s
              | Continue w \<Rightarrow>
                  next_provider i (run_pool (runs s ! i)) ps
                    (if w then s\<lparr>console_warnings := console_warnings s @ [p]\<rparr> else s))
         | Returned \<Rightarrow> s
         | Threw \<Rightarrow> s)
      else s)"

subsection \<open>\<open>handleVisibilityChange\<close>\<close>

definition visibleIdx :: "entry list \<Rightarrow> nat list" where
  "visibleIdx entries = map target (filter isIntersecting entries)"

text \<open>\<open>xs.slice(0, e)\<close>: a negative \<open>e\<close> counts from the end of the array.\<close>

definition slice0 :: "'a list \<Rightarrow> int \<Rightarrow> 'a list" where
  "slice0 xs e = (if e < 0 then take (nat (int (length xs) + e)) xs else take (nat e) xs)"

definition trimmed :: "int \<Rightarrow> entry list \<Rightarrow> nat list" where
  "trimmed count entries = slice0 (sort (visibleIdx entries)) count"

text \<open>
  \<open>trimmed.flatMap(i => config.tags[i].keywords)\<close>; an index outside \<open>config.tags\<close> reads
  \<open>undefined\<close>, and the property access on it raises a TypeError (\<open>None\<close>).
\<close>

fun keywordPool :: "tag list \<Rightarrow> nat list \<Rightarrow> string list option" where
  "keywordPool ts [] = Some []"
| "keywordPool ts (i # is) =
     (if i < length ts
      then (case keywordPool ts is of None \<Rightarrow> None | Some ks \<Rightarrow> Some (tag_keywords (ts ! i) @ ks))
      else None)"

definition highlight :: "nat list \<Rightarrow> element \<Rightarrow> element" where
  "highlight sel f = f\<lparr>tag_nodes := map (\<lambda>el. el\<lparr>el_active := (el_idx el \<in> set sel)\<rparr>) (tag_nodes f)\<rparr>"

definition handleVisibilityChange :: "entry list \<Rightarrow> state \<Rightarrow> error option \<times> state" where
  "handleVisibilityChange entries s =
     (case config s of
        None \<Rightarrow> (Some TypeError, s)
      | Some c \<Rightarrow>
          (let sel = trimmed (visibleTagCount c) entries in
           case feedEl s of
             None \<Rightarrow> (Some TypeError, s)
           | Some f \<Rightarrow>
               (let s1 = s\<lparr>feedEl := Some (highlight sel f)\<rparr> in
                case keywordPool (tags c) sel of
                  None \<Rightarrow> (Some TypeError, s1)
                | Some pool \<Rightarrow> (None, call_fetchAndRenderAd pool s1))))"

subsection \<open>The public API\<close>

text \<open>\<open>!v\<close> for an option that is a string when present: absent or empty.\<close>

definition falsy :: "string option \<Rightarrow> bool" where
  "falsy v = (case v of None \<Rightarrow> True | Some x \<Rightarrow> x = [])"

definition init :: "document \<Rightarrow> options \<Rightarrow> state \<Rightarrow> error option \<times> state" where
  "init doc opts s =
     (if falsy (opt_feedElementId opts) \<or> falsy (opt_adSlotId opts) \<or> opt_tags opts = None
      then (Some (Error missing_options_msg), s)
      else
        (let c = \<lparr>feedElementId = the (opt_feedElementId opts),
                  adSlotId = the (opt_adSlotId opts),
                  visibleTagCount = (case opt_visibleTagCount opts of None \<Rightarrow> 5 | Some n \<Rightarrow> n),
                  tagSpacingPx = (case opt_tagSpacingPx opts of None \<Rightarrow> 12 | Some n \<Rightarrow> n),
                  tags = the (opt_tags opts)\<rparr>;
             s1 = s\<lparr>config := Some c, feedEl := doc (feedElementId c), adSlotEl := doc (adSlotId c)\<rparr>
         in case feedEl s1 of
              None \<Rightarrow> (Some (Error not_located_msg), s1)
            | Some f \<Rightarrow>
                (case adSlotEl s1 of
                   None \<Rightarrow> (Some (Error not_located_msg), s1)
                 | Some a \<Rightarrow>
                     (let f' = renderTags c f
                      in (None, s1\<lparr>feedEl := Some f', observer := Some (setupVisibilityObserver f')\<rparr>)))))"

definition updateVisibleCount :: "layout \<Rightarrow> int \<Rightarrow> state \<Rightarrow> error option \<times> state" where
  "updateVisibleCount lay newCount s =
     (case config s of
        None \<Rightarrow> (Some TypeError, s)
      | Some c \<Rightarrow>
          (let s1 = s\<lparr>config := Some (c\<lparr>visibleTagCount := newCount\<rparr>)\<rparr> in
           case feedEl s1 of
             None \<Rightarrow> (Some TypeError, s1)
           | Some f \<Rightarrow>
               (let visibleEntries =
                      filter (\<lambda>el. tag_right lay (el_idx el) \<le> feed_right lay) (tag_nodes f)
                in handleVisibilityChange
                     (map (\<lambda>el. \<lparr>target = el_idx el, isIntersecting = True\<rparr>) visibleEntries) s1)))"

definition updateSpacing :: "int \<Rightarrow> state \<Rightarrow> error option \<times> state" where
  "updateSpacing px s =
     (case config s of
        None \<Rightarrow> (Some TypeError, s)
      | Some c \<Rightarrow>
          (let s1 = s\<lparr>config := Some (c\<lparr>tagSpacingPx := px\<rparr>)\<rparr> in
           case feedEl s1 of
             None \<Rightarrow> (Some TypeError, s1)
           | Some f \<Rightarrow> (None, s1\<lparr>feedEl := Some (f\<lparr>tag_spacing := Some (px_string px)\<rparr>)\<rparr>)))"

subsection \<open>Sequences of events\<close>

text \<open>
  What can happen to the module, one event at a time: a call of the public API, a
  callback of the IntersectionObserver, or the settling of the promise a suspended run
  awaits. An exception goes to the caller and the state stays as the call left it.
\<close>

datatype event =
    Init document options
  | Visibility "entry list"
  | UpdateVisibleCount layout int
  | UpdateSpacing int
  | Settled nat fetch_result

fun step :: "state \<Rightarrow> event \<Rightarrow> state" where
  "step s (Init doc opts) = snd (init doc opts s)"
| "step s (Visibility entries) = snd (handleVisibilityChange entries s)"
| "step s (UpdateVisibleCount lay n) = snd (updateVisibleCount lay n s)"
| "step s (UpdateSpacing px) = snd (updateSpacing px s)"
| "step s (Settled i r) = resume_fetchAndRenderAd i r s"

definition exec :: "event list \<Rightarrow> state \<Rightarrow> state" where
  "exec evs s = foldl step s evs"

subsection \<open>A run carried to its end\<close>



lemma length_runs_set_status: "length (runs (set_status i st s)) = length (runs s)"
  by (simp add: set_status_def)









subsection \<open>Auxiliary notions for the statements\<close>

text \<open>The adapter that declines wherever the given one fails.\<close>

definition as_decline :: "provider_adapter \<Rightarrow> provider_adapter" where
  "as_decline fetch p kw = (case fetch p kw of Rejected \<Rightarrow> Fulfilled None | Fulfilled a \<Rightarrow> Fulfilled a)"

text \<open>The state with the two places that hold the spacing blanked.\<close>

definition forget_spacing :: "state \<Rightarrow> state" where
  "forget_spacing s =
     s\<lparr>config := map_option (\<lambda>c. c\<lparr>tagSpacingPx := 0\<rparr>) (config s),
       feedEl := map_option (\<lambda>f. f\<lparr>tag_spacing := None\<rparr>) (feedEl s)\<rparr>"

text \<open>The ids of the tag elements that carry the class \<open>active\<close>.\<close>

definition active_tags :: "state \<Rightarrow> nat list" where
  "active_tags s =
     (case feedEl s of None \<Rightarrow> [] | Some f \<Rightarrow> map el_idx (filter el_active (tag_nodes f)))"

definition ad_markup :: "state \<Rightarrow> string option" where
  "ad_markup s = map_option innerHTML (adSlotEl s)"

subsection \<open>A sample page\<close>

definition demo_tags :: "tag list" where
  "demo_tags =
     [\<lparr>tag_text = ''Phones'', tag_keywords = [''google pixel'']\<rparr>,
      \<lparr>tag_text = ''Climate'', tag_keywords = [''Carbon offset'']\<rparr>,
      \<lparr>tag_text = ''Travel'', tag_keywords = [''flights'', ''hotels'']\<rparr>,
      \<lparr>tag_text = ''Finance'', tag_keywords = [''crypto'', ''stocks'']\<rparr>,
      \<lparr>tag_text = ''Health'', tag_keywords = [''wellness'']\<rparr>,
      \<lparr>tag_text = ''Gaming'', tag_keywords = [''esports'']\<rparr>]"

definition blank_element :: element where
  "blank_element = \<lparr>tag_nodes = [], innerHTML = [], tag_spacing = None\<rparr>"

definition demo_doc :: document where
  "demo_doc = (\<lambda>i. if i = ''tag-feed'' \<or> i = ''ad-slot'' then Some blank_element else None)"

definition demo_opts :: options where
  "demo_opts =
     \<lparr>opt_feedElementId = Some ''tag-feed'', opt_adSlotId = Some ''ad-slot'',
      opt_visibleTagCount = None, opt_tagSpacingPx = None, opt_tags = Some demo_tags\<rparr>"

definition demo_state :: state where
  "demo_state = snd (init demo_doc demo_opts initial_state)"


text \<open>The stub adapters of the specification's examples.\<close>

definition stub_null_x_y :: provider_adapter where
  "stub_null_x_y p kw =
     (if p = ''carbon'' then Fulfilled None
      else if p = ''facebook'' then Fulfilled (Some \<lparr>html = ''x''\<rparr>)
      else Fulfilled (Some \<lparr>html = ''y''\<rparr>))"

definition stub_throws_x :: provider_adapter where
  "stub_throws_x p kw =
     (if p = ''carbon'' then Rejected
      else if p = ''facebook'' then Fulfilled (Some \<lparr>html = ''x''\<rparr>)
      else Fulfilled None)"

definition stub_none :: provider_adapter where
  "stub_none p kw = (if p = ''facebook'' then Fulfilled (Some \<lparr>html = []\<rparr>) else Fulfilled None)"

text \<open>
  Two overlapping runs with the placeholder adapter. The first callback reports every
  observed tag, with tag 0 alone intersecting (pool \<open>google pixel\<close>); the second
  reports tag 0 leaving and tag 1 entering (pool \<open>Carbon offset\<close>). Run 0 is
  declined by carbon and facebook and matched by google; run 1 is matched by carbon at
  once, so it ends while run 0 still awaits facebook.
\<close>

definition race_events :: "event list" where
  "race_events =
     [Init demo_doc demo_opts,
      Visibility [\<lparr>target = 0, isIntersecting = True\<rparr>, \<lparr>target = 1, isIntersecting = False\<rparr>,
                  \<lparr>target = 2, isIntersecting = False\<rparr>, \<lparr>target = 3, isIntersecting = False\<rparr>,
                  \<lparr>target = 4, isIntersecting = False\<rparr>, \<lparr>target = 5, isIntersecting = False\<rparr>],
      Visibility [\<lparr>target = 0, isIntersecting = False\<rparr>, \<lparr>target = 1, isIntersecting = True\<rparr>],
      Settled 0 (fetchAdFromProvider ''carbon'' [''google pixel'']),
      Settled 1 (fetchAdFromProvider ''carbon'' [''Carbon offset'']),
      Settled 0 (fetchAdFromProvider ''facebook'' [''google pixel'']),
      Settled 0 (fetchAdFromProvider ''google'' [''google pixel''])]"

text \<open>
  The first callback reports every observed tag, with tags 0 and 1 intersecting; then
  tag 2 comes into view while 0 and 1 stay visible, so the second callback carries the
  entry of tag 2 alone.
\<close>

definition scroll_events :: "event list" where
  "scroll_events =
     [Init demo_doc demo_opts,
      Visibility [\<lparr>target = 0, isIntersecting = True\<rparr>, \<lparr>target = 1, isIntersecting = True\<rparr>,
                  \<lparr>target = 2, isIntersecting = False\<rparr>, \<lparr>target = 3, isIntersecting = False\<rparr>,
                  \<lparr>target = 4, isIntersecting = False\<rparr>, \<lparr>target = 5, isIntersecting = False\<rparr>],
      Visibility [\<lparr>target = 2, isIntersecting = True\<rparr>]]"

section \<open>The provider loop\<close>

text \<open>With the ad slot in place, the loop body turns on the test \<open>ad && ad.html\<close> alone.\<close>

lemma loop_body_match:
  "loop_body True r = (case match_of r of Some h \<Rightarrow> Return h | None \<Rightarrow> Continue (r = Rejected))"
  by (simp add: loop_body_def match_of_def split: fetch_result.splits option.splits)

lemma try_providers_calls_prefix:
  "\<exists>n\<le>length ps. r_calls (try_providers slot fetch kw ps) = map (\<lambda>p. (p, kw)) (take n ps)"
proof (induction ps)
  case Nil
  have "r_calls (try_providers slot fetch kw []) = map (\<lambda>p. (p, kw)) (take 0 [])"
    by (simp add: write_slot_def)
  then show ?case by blast
next
  case (Cons p ps)
  then obtain n where n: "n \<le> length ps"
    "r_calls (try_providers slot fetch kw ps) = map (\<lambda>p. (p, kw)) (take n ps)" by blast
  show ?case
  proof (cases "loop_body slot (fetch p kw)")
    case (Return h)
    then have "r_calls (try_providers slot fetch kw (p # ps)) =
        map (\<lambda>p. (p, kw)) (take (Suc 0) (p # ps))"
      by simp
    moreover have "Suc 0 \<le> length (p # ps)" by simp
    ultimately show ?thesis by blast
  next
    case (Continue w)
    then have "r_calls (try_providers slot fetch kw (p # ps)) =
        map (\<lambda>p. (p, kw)) (take (Suc n) (p # ps))"
      using n by (simp add: Let_def)
    moreover have "Suc n \<le> length (p # ps)" using n(1) by simp
    ultimately show ?thesis by blast
  qed
qed

lemma try_providers_no_match:
  "\<forall>p\<in>set ps. match_of (fetch p kw) = None \<Longrightarrow>
   r_calls (try_providers True fetch kw ps) = map (\<lambda>p. (p, kw)) ps \<and>
   r_renders (try_providers True fetch kw ps) = [no_match_html]"
  by (induction ps) (simp_all add: write_slot_def loop_body_match Let_def)

lemma try_providers_first_match:
  "k < length ps \<Longrightarrow> \<forall>j<k. match_of (fetch (ps ! j) kw) = None \<Longrightarrow>
   match_of (fetch (ps ! k) kw) = Some h \<Longrightarrow>
   r_calls (try_providers True fetch kw ps) = map (\<lambda>p. (p, kw)) (take (Suc k) ps) \<and>
   r_renders (try_providers True fetch kw ps) = [h]"
proof (induction ps arbitrary: k)
  case Nil
  then show ?case by simp
next
  case (Cons p ps)
  show ?case
  proof (cases k)
    case 0
    with Cons.prems show ?thesis by (simp add: loop_body_match)
  next
    case (Suc k')
    from Cons.prems(2) Suc have p: "match_of (fetch p kw) = None" by auto
    from Cons.prems Suc have "k' < length ps" "\<forall>j<k'. match_of (fetch (ps ! j) kw) = None"
      "match_of (fetch (ps ! k') kw) = Some h" by auto
    from Cons.IH[OF this] p Suc show ?thesis by (simp add: loop_body_match Let_def)
  qed
qed

lemma try_providers_warnings:
  "r_warnings (try_providers True fetch kw ps) =
     filter (\<lambda>p. fetch p kw = Rejected) (map fst (r_calls (try_providers True fetch kw ps)))"
  by (induction ps)
     (simp_all add: write_slot_def loop_body_match Let_def match_of_def
        split: option.splits fetch_result.splits)

lemma try_providers_not_rejected: "\<not> r_rejected (try_providers True fetch kw ps)"
  by (induction ps) (simp_all add: write_slot_def Let_def split: iteration.splits)


lemma match_of_as_decline: "match_of (as_decline fetch p kw) = match_of (fetch p kw)"
  by (simp add: as_decline_def match_of_def split: fetch_result.splits)

lemma try_providers_as_decline:
  "r_calls (try_providers True (as_decline fetch) kw ps) = r_calls (try_providers True fetch kw ps) \<and>
   r_renders (try_providers True (as_decline fetch) kw ps) = r_renders (try_providers True fetch kw ps)"
  by (induction ps) (simp_all add: loop_body_match match_of_as_decline Let_def split: option.splits)

section \<open>A suspended run agrees with the loop\<close>





section \<open>Claims about the provider resolution\<close>

lemma fetchAndRenderAd_nonempty:
  "kw \<noteq> [] \<Longrightarrow> fetchAndRenderAd slot fetch kw = try_providers slot fetch kw providerList"
  by (simp add: fetchAndRenderAd_def)

text \<open>
  C1. For a non-empty keyword pool the providers are called one after the other in the
  order of \<open>providerList\<close>, each with the full pool: the calls are an initial segment
  of the list. The first provider whose result is an ad with non-empty markup ends the
  loop: its markup is what is rendered, and the calls stop with it. A provider that
  gives \<open>null\<close> or empty markup is passed over. When none matches, every provider has
  been called and the no-match markup is rendered.
\<close>

theorem C1_sequential_first_match_wins:
  assumes "kw \<noteq> []"
  shows "(\<exists>n\<le>length providerList.
            r_calls (fetchAndRenderAd True fetch kw) = map (\<lambda>p. (p, kw)) (take n providerList)) \<and>
         (\<forall>k h. k < length providerList \<and>
                (\<forall>j<k. match_of (fetch (providerList ! j) kw) = None) \<and>
                match_of (fetch (providerList ! k) kw) = Some h \<longrightarrow>
                r_renders (fetchAndRenderAd True fetch kw) = [h] \<and>
                r_calls (fetchAndRenderAd True fetch kw) =
                  map (\<lambda>p. (p, kw)) (take (Suc k) providerList)) \<and>
         ((\<forall>p\<in>set providerList. match_of (fetch p kw) = None) \<longrightarrow>
            r_renders (fetchAndRenderAd True fetch kw) = [no_match_html] \<and>
            r_calls (fetchAndRenderAd True fetch kw) = map (\<lambda>p. (p, kw)) providerList)"
proof (intro conjI allI impI)
  show "\<exists>n\<le>length providerList.
          r_calls (fetchAndRenderAd True fetch kw) = map (\<lambda>p. (p, kw)) (take n providerList)"
    using assms try_providers_calls_prefix[of providerList True fetch kw]
    by (simp add: fetchAndRenderAd_nonempty)
next
  fix k h
  assume a: "k < length providerList \<and>
     (\<forall>j<k. match_of (fetch (providerList ! j) kw) = None) \<and>
     match_of (fetch (providerList ! k) kw) = Some h"
  then have "r_calls (try_providers True fetch kw providerList) =
        map (\<lambda>p. (p, kw)) (take (Suc k) providerList) \<and>
      r_renders (try_providers True fetch kw providerList) = [h]"
    by (intro try_providers_first_match) simp_all
  then show "r_renders (fetchAndRenderAd True fetch kw) = [h]"
    and "r_calls (fetchAndRenderAd True fetch kw) = map (\<lambda>p. (p, kw)) (take (Suc k) providerList)"
    using assms by (simp_all add: fetchAndRenderAd_nonempty)
next
  assume "\<forall>p\<in>set providerList. match_of (fetch p kw) = None"
  then have "r_calls (try_providers True fetch kw providerList) = map (\<lambda>p. (p, kw)) providerList \<and>
      r_renders (try_providers True fetch kw providerList) = [no_match_html]"
    by (rule try_providers_no_match)
  then show "r_renders (fetchAndRenderAd True fetch kw) = [no_match_html]"
    and "r_calls (fetchAndRenderAd True fetch kw) = map (\<lambda>p. (p, kw)) providerList"
    using assms by (simp_all add: fetchAndRenderAd_nonempty)
qed

text \<open>
  The instance of the specification: the first provider gives \<open>null\<close>, the second
  \<open>x\<close>, the third \<open>y\<close>; the second is rendered and the third is never called. With
  providers that all decline (one of them by empty markup), all three are called.
\<close>

theorem C1_sequential_first_match_wins_witness:
  "[''ai''] \<noteq> ([] :: string list) \<and>
   r_renders (fetchAndRenderAd True stub_null_x_y [''ai'']) = [''x''] \<and>
   r_calls (fetchAndRenderAd True stub_null_x_y [''ai'']) =
     [(''carbon'', [''ai'']), (''facebook'', [''ai''])] \<and>
   r_renders (fetchAndRenderAd True stub_none [''ai'']) = [no_match_html] \<and>
   r_calls (fetchAndRenderAd True stub_none [''ai'']) =
     [(''carbon'', [''ai'']), (''facebook'', [''ai'']), (''google'', [''ai''])]"
proof -
  have kw: "[''ai''] \<noteq> ([] :: string list)" by simp
  have first: "(1::nat) < length providerList \<and>
      (\<forall>j<1. match_of (stub_null_x_y (providerList ! j) [''ai'']) = None) \<and>
      match_of (stub_null_x_y (providerList ! 1) [''ai'']) = Some ''x''"
    by (simp add: providerList_def stub_null_x_y_def match_of_def)
  have none: "\<forall>p\<in>set providerList. match_of (stub_none p [''ai'']) = None"
    by (simp add: providerList_def stub_none_def match_of_def)
  from C1_sequential_first_match_wins[OF kw, of stub_null_x_y] first
  have "r_renders (fetchAndRenderAd True stub_null_x_y [''ai'']) = [''x''] \<and>
      r_calls (fetchAndRenderAd True stub_null_x_y [''ai'']) =
        map (\<lambda>p. (p, [''ai''])) (take (Suc 1) providerList)"
    by blast
  moreover from C1_sequential_first_match_wins[OF kw, of stub_none] none
  have "r_renders (fetchAndRenderAd True stub_none [''ai'']) = [no_match_html] \<and>
      r_calls (fetchAndRenderAd True stub_none [''ai'']) = map (\<lambda>p. (p, [''ai''])) providerList"
    by blast
  ultimately show ?thesis
    by (simp add: providerList_def)
qed

text \<open>
  C4. A provider whose lookup fails does not fail the run: the promise of the run is
  not rejected. Each failure is reported through \<open>console.warn\<close>, which names exactly
  the called providers that failed. Apart from that report the run is the one in which
  these providers had declined: the same calls and the same rendering. In particular,
  when the first provider throws and the second gives an ad, the second is rendered.
\<close>

theorem C4_provider_failure_isolated:
  "\<not> r_rejected (fetchAndRenderAd True fetch kw) \<and>
   r_warnings (fetchAndRenderAd True fetch kw) =
     filter (\<lambda>p. fetch p kw = Rejected) (map fst (r_calls (fetchAndRenderAd True fetch kw))) \<and>
   r_calls (fetchAndRenderAd True fetch kw) = r_calls (fetchAndRenderAd True (as_decline fetch) kw) \<and>
   r_renders (fetchAndRenderAd True fetch kw) = r_renders (fetchAndRenderAd True (as_decline fetch) kw) \<and>
   (fetch a kw = Rejected \<and> match_of (fetch b kw) = Some h \<longrightarrow>
      r_renders (try_providers True fetch kw (a # b # ps)) = [h] \<and>
      r_warnings (try_providers True fetch kw (a # b # ps)) = [a] \<and>
      \<not> r_rejected (try_providers True fetch kw (a # b # ps)))"
proof (intro conjI impI)
  show "\<not> r_rejected (fetchAndRenderAd True fetch kw)"
    by (simp add: fetchAndRenderAd_def write_slot_def try_providers_not_rejected)
  show "r_warnings (fetchAndRenderAd True fetch kw) =
     filter (\<lambda>p. fetch p kw = Rejected) (map fst (r_calls (fetchAndRenderAd True fetch kw)))"
    using try_providers_warnings[of fetch kw providerList]
    by (simp add: fetchAndRenderAd_def write_slot_def)
  show "r_calls (fetchAndRenderAd True fetch kw) = r_calls (fetchAndRenderAd True (as_decline fetch) kw)"
    using try_providers_as_decline[of fetch kw providerList]
    by (simp add: fetchAndRenderAd_def)
  show "r_renders (fetchAndRenderAd True fetch kw) = r_renders (fetchAndRenderAd True (as_decline fetch) kw)"
    using try_providers_as_decline[of fetch kw providerList]
    by (simp add: fetchAndRenderAd_def)
next
  assume a: "fetch a kw = Rejected \<and> match_of (fetch b kw) = Some h"
  then show "r_renders (try_providers True fetch kw (a # b # ps)) = [h]"
    and "r_warnings (try_providers True fetch kw (a # b # ps)) = [a]"
    and "\<not> r_rejected (try_providers True fetch kw (a # b # ps))"
    by (simp_all add: loop_body_match match_of_def Let_def)
qed

text \<open>The instance of the specification: the first provider throws, the second gives \<open>x\<close>.\<close>

theorem C4_provider_failure_isolated_witness:
  "stub_throws_x ''carbon'' [''ai''] = Rejected \<and>
   match_of (stub_throws_x ''facebook'' [''ai'']) = Some ''x'' \<and>
   r_renders (try_providers True stub_throws_x [''ai''] [''carbon'', ''facebook'', ''google'']) = [''x''] \<and>
   r_warnings (try_providers True stub_throws_x [''ai''] [''carbon'', ''facebook'', ''google'']) = [''carbon''] \<and>
   \<not> r_rejected (try_providers True stub_throws_x [''ai''] [''carbon'', ''facebook'', ''google''])"
proof -
  have h: "stub_throws_x ''carbon'' [''ai''] = Rejected \<and>
      match_of (stub_throws_x ''facebook'' [''ai'']) = Some ''x''"
    by (simp add: stub_throws_x_def match_of_def)
  with C4_provider_failure_isolated[of stub_throws_x "[''ai'']" "''carbon''" "''facebook''" "''x''" "[''google'']"]
  show ?thesis by blast
qed

section \<open>The selection and the keyword pool\<close>

lemma slice0_nonneg: "0 \<le> e \<Longrightarrow> slice0 xs e = take (nat e) xs"
  by (simp add: slice0_def)

lemma set_slice0: "set (slice0 xs e) \<subseteq> set xs"
  by (auto simp: slice0_def dest: in_set_takeD)

lemma set_trimmed: "set (trimmed n entries) \<subseteq> set (visibleIdx entries)"
  using set_slice0[of "sort (visibleIdx entries)" n] by (simp add: trimmed_def)


lemma keywordPool_out_of_range:
  "\<exists>i\<in>set sel. \<not> i < length ts \<Longrightarrow> keywordPool ts sel = None"
  by (induction sel) (auto split: option.splits)

lemma highlight_twice: "highlight sel (highlight sel f) = highlight sel f"
  by (simp add: highlight_def)







lemma feedEl_call: "feedEl (call_fetchAndRenderAd kw s) = feedEl s"
  by (cases "adSlotEl s")
     (simp_all add: call_fetchAndRenderAd_def Let_def render_and_leave_def assign_ad_def
        set_status_def providerList_def)

lemma config_call: "config (call_fetchAndRenderAd kw s) = config s"
  by (cases "adSlotEl s")
     (simp_all add: call_fetchAndRenderAd_def Let_def render_and_leave_def assign_ad_def
        set_status_def providerList_def)

text \<open>
  C2. For a positive \<open>visibleTagCount\<close> the selection that \<open>handleVisibilityChange\<close>
  computes is the collected visible indices in ascending order, cut to the first
  \<open>visibleTagCount\<close>: it is sorted by position, it has at most \<open>visibleTagCount\<close>
  entries, and it holds only indices reported as intersecting.
\<close>

theorem C2_selection_sorted_and_capped:
  assumes "0 < n"
  shows "trimmed n entries = take (nat n) (sort (visibleIdx entries)) \<and>
         sorted (trimmed n entries) \<and>
         int (length (trimmed n entries)) \<le> n \<and>
         set (trimmed n entries) \<subseteq> target ` {e \<in> set entries. isIntersecting e}"
proof -
  have eq: "trimmed n entries = take (nat n) (sort (visibleIdx entries))"
    using assms by (simp add: trimmed_def slice0_nonneg)
  have "sorted (take (nat n) (sort (visibleIdx entries)))"
    by (rule sorted_wrt_take) simp
  moreover have "int (length (take (nat n) (sort (visibleIdx entries)))) \<le> n"
    using assms by simp
  moreover have "set (trimmed n entries) \<subseteq> target ` {e \<in> set entries. isIntersecting e}"
    using set_trimmed[of n entries] by (auto simp: visibleIdx_def)
  ultimately show ?thesis using eq by simp
qed

theorem C2_selection_sorted_and_capped_witness:
  "(0::int) < 2 \<and>
   trimmed 2 [\<lparr>target = 3, isIntersecting = True\<rparr>, \<lparr>target = 1, isIntersecting = True\<rparr>,
              \<lparr>target = 2, isIntersecting = False\<rparr>, \<lparr>target = 0, isIntersecting = True\<rparr>] = [0, 1] \<and>
   sorted (trimmed 2 [\<lparr>target = 3, isIntersecting = True\<rparr>, \<lparr>target = 1, isIntersecting = True\<rparr>,
              \<lparr>target = 2, isIntersecting = False\<rparr>, \<lparr>target = 0, isIntersecting = True\<rparr>]) \<and>
   int (length (trimmed 2 [\<lparr>target = 3, isIntersecting = True\<rparr>, \<lparr>target = 1, isIntersecting = True\<rparr>,
              \<lparr>target = 2, isIntersecting = False\<rparr>, \<lparr>target = 0, isIntersecting = True\<rparr>])) \<le> 2"
proof -
  have pos: "(0::int) < 2" by simp
  have srt: "take (nat 2) (sort (visibleIdx [\<lparr>target = 3, isIntersecting = True\<rparr>,
      \<lparr>target = 1, isIntersecting = True\<rparr>, \<lparr>target = 2, isIntersecting = False\<rparr>,
      \<lparr>target = 0, isIntersecting = True\<rparr>])) = [0, 1]"
    by (simp add: visibleIdx_def)
  from C2_selection_sorted_and_capped[OF pos, of "[\<lparr>target = 3, isIntersecting = True\<rparr>,
      \<lparr>target = 1, isIntersecting = True\<rparr>, \<lparr>target = 2, isIntersecting = False\<rparr>,
      \<lparr>target = 0, isIntersecting = True\<rparr>]"] srt
  show ?thesis by simp
qed

text \<open>
  C3. With an empty keyword pool \<open>fetchAndRenderAd\<close> assigns the empty-pool markup to
  the ad slot at once and returns: the run is never suspended, no provider is called
  and nothing is reported. The same holds for the callback whose selection is empty:
  it raises nothing, its pool is empty, and no provider is called.
\<close>

theorem C3_empty_pool_short_circuit:
  assumes "adSlotEl s = Some e"
  shows "provider_calls (call_fetchAndRenderAd [] s) = provider_calls s \<and>
         console_warnings (call_fetchAndRenderAd [] s) = console_warnings s \<and>
         ad_markup (call_fetchAndRenderAd [] s) = Some empty_pool_html \<and>
         ad_renders (call_fetchAndRenderAd [] s) = ad_renders s @ [empty_pool_html] \<and>
         map run_status (runs (call_fetchAndRenderAd [] s)) = map run_status (runs s) @ [Returned] \<and>
         fetchAndRenderAd True fetch [] =
           \<lparr>r_calls = [], r_warnings = [], r_renders = [empty_pool_html], r_rejected = False\<rparr> \<and>
         (config s = Some c \<and> feedEl s = Some f \<and> trimmed (visibleTagCount c) entries = [] \<longrightarrow>
            fst (handleVisibilityChange entries s) = None \<and>
            map run_pool (runs (snd (handleVisibilityChange entries s))) = map run_pool (runs s) @ [[]] \<and>
            provider_calls (snd (handleVisibilityChange entries s)) = provider_calls s \<and>
            ad_markup (snd (handleVisibilityChange entries s)) = Some empty_pool_html)"
proof -
  have call: "\<And>t e'. adSlotEl t = Some e' \<Longrightarrow>
      call_fetchAndRenderAd [] t =
        t\<lparr>adSlotEl := Some (e'\<lparr>innerHTML := empty_pool_html, tag_nodes := []\<rparr>),
          ad_renders := ad_renders t @ [empty_pool_html],
          runs := runs t @ [\<lparr>run_pool = [], run_status = Returned\<rparr>]\<rparr>"
    by (simp add: call_fetchAndRenderAd_def Let_def render_and_leave_def assign_ad_def
          set_status_def)
  have direct: "provider_calls (call_fetchAndRenderAd [] s) = provider_calls s \<and>
         console_warnings (call_fetchAndRenderAd [] s) = console_warnings s \<and>
         ad_markup (call_fetchAndRenderAd [] s) = Some empty_pool_html \<and>
         ad_renders (call_fetchAndRenderAd [] s) = ad_renders s @ [empty_pool_html] \<and>
         map run_status (runs (call_fetchAndRenderAd [] s)) = map run_status (runs s) @ [Returned]"
    by (simp add: call[OF assms] ad_markup_def)
  have loop: "fetchAndRenderAd True fetch [] =
           \<lparr>r_calls = [], r_warnings = [], r_renders = [empty_pool_html], r_rejected = False\<rparr>"
    by (simp add: fetchAndRenderAd_def write_slot_def)
  have cb: "fst (handleVisibilityChange entries s) = None \<and>
            map run_pool (runs (snd (handleVisibilityChange entries s))) = map run_pool (runs s) @ [[]] \<and>
            provider_calls (snd (handleVisibilityChange entries s)) = provider_calls s \<and>
            ad_markup (snd (handleVisibilityChange entries s)) = Some empty_pool_html"
    if h: "config s = Some c \<and> feedEl s = Some f \<and> trimmed (visibleTagCount c) entries = []"
  proof -
    define s1 where "s1 = s\<lparr>feedEl := Some (highlight [] f)\<rparr>"
    have s1: "adSlotEl s1 = Some e" using assms by (simp add: s1_def)
    have "handleVisibilityChange entries s = (None, call_fetchAndRenderAd [] s1)"
      using h by (simp add: handleVisibilityChange_def Let_def s1_def)
    then show ?thesis
      by (simp add: call[OF s1] ad_markup_def) (simp add: s1_def)
  qed
  show ?thesis using direct loop cb by blast
qed

lemma demo_state_eq:
  "demo_state =
      \<lparr>config = Some \<lparr>feedElementId = ''tag-feed'', adSlotId = ''ad-slot'', visibleTagCount = 5,
                       tagSpacingPx = 12, tags = demo_tags\<rparr>,
       feedEl = Some (renderTags \<lparr>feedElementId = ''tag-feed'', adSlotId = ''ad-slot'',
                       visibleTagCount = 5, tagSpacingPx = 12, tags = demo_tags\<rparr> blank_element),
       adSlotEl = Some blank_element,
       observer = Some (setupVisibilityObserver (renderTags \<lparr>feedElementId = ''tag-feed'',
                       adSlotId = ''ad-slot'', visibleTagCount = 5, tagSpacingPx = 12,
                       tags = demo_tags\<rparr> blank_element)),
       runs = [], provider_calls = [], console_warnings = [], ad_renders = []\<rparr>"
  by (simp add: demo_state_def init_def demo_doc_def demo_opts_def initial_state_def falsy_def
        Let_def)

text \<open>
  On the sample page: a callback in which no tag intersects calls no provider and
  leaves the empty-pool markup in the ad slot.
\<close>

theorem C3_empty_pool_short_circuit_witness:
  "adSlotEl demo_state = Some blank_element \<and>
   trimmed 5 [\<lparr>target = 0, isIntersecting = False\<rparr>] = [] \<and>
   fst (handleVisibilityChange [\<lparr>target = 0, isIntersecting = False\<rparr>] demo_state) = None \<and>
   provider_calls (snd (handleVisibilityChange [\<lparr>target = 0, isIntersecting = False\<rparr>] demo_state)) = [] \<and>
   ad_markup (snd (handleVisibilityChange [\<lparr>target = 0, isIntersecting = False\<rparr>] demo_state)) =
     Some empty_pool_html \<and>
   ad_renders (call_fetchAndRenderAd [] demo_state) = [empty_pool_html]"
proof -
  have slot: "adSlotEl demo_state = Some blank_element"
    by (simp add: demo_state_eq)
  have sel: "trimmed 5 [\<lparr>target = 0, isIntersecting = False\<rparr>] = []"
    by (simp add: trimmed_def visibleIdx_def slice0_def)
  have pre: "config demo_state = Some \<lparr>feedElementId = ''tag-feed'', adSlotId = ''ad-slot'',
        visibleTagCount = 5, tagSpacingPx = 12, tags = demo_tags\<rparr> \<and>
      feedEl demo_state = Some (renderTags \<lparr>feedElementId = ''tag-feed'', adSlotId = ''ad-slot'',
        visibleTagCount = 5, tagSpacingPx = 12, tags = demo_tags\<rparr> blank_element) \<and>
      trimmed (visibleTagCount \<lparr>feedElementId = ''tag-feed'', adSlotId = ''ad-slot'',
        visibleTagCount = 5, tagSpacingPx = 12, tags = demo_tags\<rparr>)
        [\<lparr>target = 0, isIntersecting = False\<rparr>] = []"
    using sel by (simp add: demo_state_eq)
  have calls0: "provider_calls demo_state = []" "ad_renders demo_state = []"
    by (simp_all add: demo_state_eq)
  from C3_empty_pool_short_circuit[OF slot] pre calls0 slot sel
  show ?thesis by fastforce
qed

section \<open>Runs and what they render\<close>







section \<open>Overlapping runs\<close>

text \<open>The state in which a suspended run is resumed by a matching result.\<close>

lemma resume_match:
  assumes "adSlotEl s = Some e" and "i < length (runs s)"
    and "run_status (runs s ! i) = Awaiting p ps" and "match_of r = Some h"
  shows "resume_fetchAndRenderAd i r s =
    set_status i Returned
      (s\<lparr>adSlotEl := Some (e\<lparr>innerHTML := h, tag_nodes := []\<rparr>), ad_renders := ad_renders s @ [h]\<rparr>)"
proof -
  have "loop_body (adSlotEl s \<noteq> None) r = Return h"
    using assms(1,4) loop_body_match[of r] by simp
  then show ?thesis
    using assms(1-3) by (simp add: resume_fetchAndRenderAd_def render_and_leave_def assign_ad_def)
qed

lemma resume_no_match:
  assumes "adSlotEl s = Some e" and "i < length (runs s)"
    and "run_status (runs s ! i) = Awaiting p ps" and "match_of r = None"
  shows "resume_fetchAndRenderAd i r s =
    next_provider i (run_pool (runs s ! i)) ps
      (if r = Rejected then s\<lparr>console_warnings := console_warnings s @ [p]\<rparr> else s)"
proof -
  have "loop_body (adSlotEl s \<noteq> None) r = Continue (r = Rejected)"
    using assms(1,4) loop_body_match[of r] by simp
  then show ?thesis
    using assms(1-3) by (simp add: resume_fetchAndRenderAd_def)
qed

text \<open>
  C6 as stated fails. Run 0 (pool \<open>google pixel\<close>) starts before run 1 (pool
  \<open>Carbon offset\<close>) and ends after it. Run 1 renders the carbon ad; run 0 then
  renders the google ad over it, and that is what the ad slot shows in the end.
\<close>

theorem C6_stale_run_overwrites:
  "map run_pool (runs (exec race_events initial_state)) = [[''google pixel''], [''Carbon offset'']] \<and>
   map run_status (runs (exec race_events initial_state)) = [Returned, Returned] \<and>
   r_renders (fetchAndRenderAd True fetchAdFromProvider [''google pixel'']) = [google_ad] \<and>
   r_renders (fetchAndRenderAd True fetchAdFromProvider [''Carbon offset'']) = [carbon_ad] \<and>
   ad_renders (exec race_events initial_state) = [carbon_ad, google_ad] \<and>
   ad_markup (exec race_events initial_state) = Some google_ad \<and>
   ad_markup (exec race_events initial_state) \<noteq> Some carbon_ad"
  by code_simp

text \<open>
  C6 as amended. The state holds no generation number, and a run that ends does not
  look at the other runs: with the ad slot in place, a suspended run whose awaited
  result is a match assigns that markup to the ad slot and returns; one whose last
  provider declines assigns the no-match markup; one with providers left goes on
  waiting and assigns nothing. So the ad slot shows the outcome of the run that ended
  last, whichever run was started last.
\<close>

theorem C6_last_completed_run_wins:
  assumes "adSlotEl s = Some e" and "i < length (runs s)"
    and "run_status (runs s ! i) = Awaiting p ps"
  shows "(match_of r = Some h \<longrightarrow>
            ad_markup (resume_fetchAndRenderAd i r s) = Some h \<and>
            ad_renders (resume_fetchAndRenderAd i r s) = ad_renders s @ [h] \<and>
            run_status (runs (resume_fetchAndRenderAd i r s) ! i) = Returned) \<and>
         (match_of r = None \<and> ps = [] \<longrightarrow>
            ad_markup (resume_fetchAndRenderAd i r s) = Some no_match_html \<and>
            ad_renders (resume_fetchAndRenderAd i r s) = ad_renders s @ [no_match_html] \<and>
            run_status (runs (resume_fetchAndRenderAd i r s) ! i) = Returned) \<and>
         (match_of r = None \<and> ps \<noteq> [] \<longrightarrow>
            ad_markup (resume_fetchAndRenderAd i r s) = ad_markup s \<and>
            ad_renders (resume_fetchAndRenderAd i r s) = ad_renders s \<and>
            run_status (runs (resume_fetchAndRenderAd i r s) ! i) = Awaiting (hd ps) (tl ps))"
proof (intro conjI impI)
  assume "match_of r = Some h"
  from resume_match[OF assms this]
  show "ad_markup (resume_fetchAndRenderAd i r s) = Some h"
    and "ad_renders (resume_fetchAndRenderAd i r s) = ad_renders s @ [h]"
    and "run_status (runs (resume_fetchAndRenderAd i r s) ! i) = Returned"
    using assms(2) by (simp_all add: ad_markup_def set_status_def)
next
  assume a: "match_of r = None \<and> ps = []"
  define s2 where "s2 = (if r = Rejected then s\<lparr>console_warnings := console_warnings s @ [p]\<rparr> else s)"
  have s2: "adSlotEl s2 = Some e" "i < length (runs s2)" "ad_renders s2 = ad_renders s"
    using assms by (simp_all add: s2_def)
  have "resume_fetchAndRenderAd i r s = render_and_leave i no_match_html s2"
    using resume_no_match[OF assms, of r] a by (simp add: s2_def)
  then show "ad_markup (resume_fetchAndRenderAd i r s) = Some no_match_html"
    and "ad_renders (resume_fetchAndRenderAd i r s) = ad_renders s @ [no_match_html]"
    and "run_status (runs (resume_fetchAndRenderAd i r s) ! i) = Returned"
    using s2 by (simp_all add: render_and_leave_def assign_ad_def ad_markup_def set_status_def)
next
  assume a: "match_of r = None \<and> ps \<noteq> []"
  then obtain q qs where ps: "ps = q # qs" by (cases ps) auto
  define s2 where "s2 = (if r = Rejected then s\<lparr>console_warnings := console_warnings s @ [p]\<rparr> else s)"
  have s2: "adSlotEl s2 = adSlotEl s" "i < length (runs s2)" "ad_renders s2 = ad_renders s"
    using assms by (simp_all add: s2_def)
  have "resume_fetchAndRenderAd i r s = next_provider i (run_pool (runs s ! i)) (q # qs) s2"
    using resume_no_match[OF assms, of r] a ps by (simp add: s2_def)
  then show "ad_markup (resume_fetchAndRenderAd i r s) = ad_markup s"
    and "ad_renders (resume_fetchAndRenderAd i r s) = ad_renders s"
    and "run_status (runs (resume_fetchAndRenderAd i r s) ! i) = Awaiting (hd ps) (tl ps)"
    using s2 ps by (simp_all add: ad_markup_def set_status_def)
qed

text \<open>
  The last step of the race: run 0 is resumed by google's ad after run 1, started
  later, has ended, and its markup replaces that of run 1.
\<close>

theorem C6_last_completed_run_wins_witness:
  "adSlotEl (exec (butlast race_events) initial_state) =
     Some \<lparr>tag_nodes = [], innerHTML = carbon_ad, tag_spacing = None\<rparr> \<and>
   (0::nat) < length (runs (exec (butlast race_events) initial_state)) \<and>
   run_status (runs (exec (butlast race_events) initial_state) ! 0) = Awaiting ''google'' [] \<and>
   map run_status (runs (exec (butlast race_events) initial_state)) =
     [Awaiting ''google'' [], Returned] \<and>
   match_of (fetchAdFromProvider ''google'' [''google pixel'']) = Some google_ad \<and>
   ad_markup (resume_fetchAndRenderAd 0 (fetchAdFromProvider ''google'' [''google pixel''])
     (exec (butlast race_events) initial_state)) = Some google_ad"
proof -
  have slot: "adSlotEl (exec (butlast race_events) initial_state) =
     Some \<lparr>tag_nodes = [], innerHTML = carbon_ad, tag_spacing = None\<rparr>"
    by code_simp
  have len: "(0::nat) < length (runs (exec (butlast race_events) initial_state))"
    by code_simp
  have st: "run_status (runs (exec (butlast race_events) initial_state) ! 0) = Awaiting ''google'' []"
    by code_simp
  have sts: "map run_status (runs (exec (butlast race_events) initial_state)) =
     [Awaiting ''google'' [], Returned]"
    by code_simp
  have m: "match_of (fetchAdFromProvider ''google'' [''google pixel'']) = Some google_ad"
    by code_simp
  from C6_last_completed_run_wins[OF slot len st,
      of "fetchAdFromProvider ''google'' [''google pixel'']" google_ad] m
  have "ad_markup (resume_fetchAndRenderAd 0 (fetchAdFromProvider ''google'' [''google pixel''])
     (exec (butlast race_events) initial_state)) = Some google_ad"
    by blast
  with slot len st sts m show ?thesis by blast
qed

section \<open>Callbacks that carry only the changed entries\<close>

text \<open>
  The callback run twice on the same entries selects and highlights the same tags
  as run once.
\<close>

lemma handleVisibilityChange_same_entries_again:
  "feedEl (step (step s (Visibility entries)) (Visibility entries)) =
     feedEl (step s (Visibility entries)) \<and>
   config (step (step s (Visibility entries)) (Visibility entries)) = config s"
proof -
  have cfg: "\<And>t. config (snd (handleVisibilityChange entries t)) = config t"
    by (simp add: handleVisibilityChange_def Let_def config_call split: option.splits)
  have feed: "\<And>t. feedEl (snd (handleVisibilityChange entries t)) =
      (case config t of None \<Rightarrow> feedEl t
       | Some c \<Rightarrow> map_option (highlight (trimmed (visibleTagCount c) entries)) (feedEl t))"
    by (simp add: handleVisibilityChange_def Let_def feedEl_call split: option.splits)
  show ?thesis
    by (cases "config s"; cases "feedEl s") (simp_all add: cfg feed highlight_twice)
qed

text \<open>
  C5 on the code. After the first callback, which reports tags 0 and 1 as
  intersecting, tags 0 and 1 are active. The next callback carries the one entry that changed, tag 2 coming
  into view; tags 0 and 1 are still in view, yet the selection is tag 2 alone and the
  pool of the run it starts holds the keywords of tag 2 only.
\<close>

theorem C5_selection_from_last_callback_only:
  "active_tags (exec (butlast scroll_events) initial_state) = [0, 1] \<and>
   active_tags (exec scroll_events initial_state) = [2] \<and>
   map run_pool (runs (exec scroll_events initial_state)) =
     [[''google pixel'', ''Carbon offset''], [''flights'', ''hotels'']]"
  by code_simp

section \<open>The public API\<close>

text \<open>
  C8 as stated fails. \<open>init\<close> accepts a \<open>visibleTagCount\<close> of 0 or of -3 and stores
  it, and it accepts options without \<open>visibleTagCount\<close>.
\<close>

theorem C8_nonpositive_count_accepted:
  "fst (init demo_doc (demo_opts\<lparr>opt_visibleTagCount := Some 0\<rparr>) initial_state) = None \<and>
   map_option visibleTagCount
     (config (snd (init demo_doc (demo_opts\<lparr>opt_visibleTagCount := Some 0\<rparr>) initial_state))) = Some 0 \<and>
   fst (init demo_doc (demo_opts\<lparr>opt_visibleTagCount := Some (- 3)\<rparr>) initial_state) = None \<and>
   map_option visibleTagCount
     (config (snd (init demo_doc (demo_opts\<lparr>opt_visibleTagCount := Some (- 3)\<rparr>) initial_state))) =
     Some (- 3) \<and>
   opt_visibleTagCount demo_opts = None \<and>
   fst (init demo_doc demo_opts initial_state) = None"
  by (simp add: init_def demo_doc_def demo_opts_def initial_state_def falsy_def Let_def)

text \<open>
  C8 as amended. \<open>init\<close> throws the ``missing required options'' error, leaving the
  state as it was, whenever \<open>feedElementId\<close> or \<open>adSlotId\<close> is absent or empty or
  \<open>tags\<close> is not an array. Otherwise it throws the different ``could not locate''
  error whenever the document has no element for one of the two ids. Otherwise it
  succeeds; \<open>visibleTagCount\<close> is not validated: a given value is stored as it is,
  and an absent one becomes 5.
\<close>

theorem C8_init_checks:
  "(falsy (opt_feedElementId opts) \<or> falsy (opt_adSlotId opts) \<or> opt_tags opts = None \<longrightarrow>
      init doc opts s = (Some (Error missing_options_msg), s)) \<and>
   (\<not> falsy (opt_feedElementId opts) \<and> \<not> falsy (opt_adSlotId opts) \<and> opt_tags opts \<noteq> None \<and>
    (doc (the (opt_feedElementId opts)) = None \<or> doc (the (opt_adSlotId opts)) = None) \<longrightarrow>
      fst (init doc opts s) = Some (Error not_located_msg)) \<and>
   (\<not> falsy (opt_feedElementId opts) \<and> \<not> falsy (opt_adSlotId opts) \<and> opt_tags opts \<noteq> None \<and>
    doc (the (opt_feedElementId opts)) \<noteq> None \<and> doc (the (opt_adSlotId opts)) \<noteq> None \<longrightarrow>
      fst (init doc opts s) = None \<and>
      map_option visibleTagCount (config (snd (init doc opts s))) =
        Some (case opt_visibleTagCount opts of None \<Rightarrow> 5 | Some n \<Rightarrow> n)) \<and>
   Error missing_options_msg \<noteq> Error not_located_msg"
proof (intro conjI impI)
  assume "falsy (opt_feedElementId opts) \<or> falsy (opt_adSlotId opts) \<or> opt_tags opts = None"
  then show "init doc opts s = (Some (Error missing_options_msg), s)"
    by (simp add: init_def)
next
  assume "\<not> falsy (opt_feedElementId opts) \<and> \<not> falsy (opt_adSlotId opts) \<and> opt_tags opts \<noteq> None \<and>
    (doc (the (opt_feedElementId opts)) = None \<or> doc (the (opt_adSlotId opts)) = None)"
  then show "fst (init doc opts s) = Some (Error not_located_msg)"
    by (auto simp: init_def Let_def split: option.splits)
next
  assume a: "\<not> falsy (opt_feedElementId opts) \<and> \<not> falsy (opt_adSlotId opts) \<and> opt_tags opts \<noteq> None \<and>
    doc (the (opt_feedElementId opts)) \<noteq> None \<and> doc (the (opt_adSlotId opts)) \<noteq> None"
  then show "fst (init doc opts s) = None"
    by (auto simp: init_def Let_def split: option.splits)
  from a show "map_option visibleTagCount (config (snd (init doc opts s))) =
        Some (case opt_visibleTagCount opts of None \<Rightarrow> 5 | Some n \<Rightarrow> n)"
    by (auto simp: init_def Let_def split: option.splits)
next
  show "Error missing_options_msg \<noteq> Error not_located_msg"
    by (simp add: missing_options_msg_def not_located_msg_def)
qed

text \<open>
  The three outcomes on the sample page: options without tags, options whose ad slot
  id names no element, and the sample options, which carry no \<open>visibleTagCount\<close>.
\<close>

theorem C8_init_checks_witness:
  "opt_tags (demo_opts\<lparr>opt_tags := None\<rparr>) = None \<and>
   init demo_doc (demo_opts\<lparr>opt_tags := None\<rparr>) initial_state =
     (Some (Error missing_options_msg), initial_state) \<and>
   demo_doc (the (opt_adSlotId (demo_opts\<lparr>opt_adSlotId := Some ''nowhere''\<rparr>))) = None \<and>
   fst (init demo_doc (demo_opts\<lparr>opt_adSlotId := Some ''nowhere''\<rparr>) initial_state) =
     Some (Error not_located_msg) \<and>
   fst (init demo_doc demo_opts initial_state) = None \<and>
   map_option visibleTagCount (config (snd (init demo_doc demo_opts initial_state))) = Some 5"
proof -
  have a: "falsy (opt_feedElementId (demo_opts\<lparr>opt_tags := None\<rparr>)) \<or>
      falsy (opt_adSlotId (demo_opts\<lparr>opt_tags := None\<rparr>)) \<or>
      opt_tags (demo_opts\<lparr>opt_tags := None\<rparr>) = None"
    by simp
  have b: "\<not> falsy (opt_feedElementId (demo_opts\<lparr>opt_adSlotId := Some ''nowhere''\<rparr>)) \<and>
      \<not> falsy (opt_adSlotId (demo_opts\<lparr>opt_adSlotId := Some ''nowhere''\<rparr>)) \<and>
      opt_tags (demo_opts\<lparr>opt_adSlotId := Some ''nowhere''\<rparr>) \<noteq> None \<and>
      (demo_doc (the (opt_feedElementId (demo_opts\<lparr>opt_adSlotId := Some ''nowhere''\<rparr>))) = None \<or>
       demo_doc (the (opt_adSlotId (demo_opts\<lparr>opt_adSlotId := Some ''nowhere''\<rparr>))) = None)"
    by (simp add: demo_opts_def demo_doc_def falsy_def)
  have c: "\<not> falsy (opt_feedElementId demo_opts) \<and> \<not> falsy (opt_adSlotId demo_opts) \<and>
      opt_tags demo_opts \<noteq> None \<and>
      demo_doc (the (opt_feedElementId demo_opts)) \<noteq> None \<and>
      demo_doc (the (opt_adSlotId demo_opts)) \<noteq> None"
    by (simp add: demo_opts_def demo_doc_def falsy_def)
  have d: "opt_visibleTagCount demo_opts = None"
    by (simp add: demo_opts_def)
  have nowhere: "demo_doc (the (opt_adSlotId (demo_opts\<lparr>opt_adSlotId := Some ''nowhere''\<rparr>))) = None"
    by (simp add: demo_doc_def)
  from C8_init_checks[of "demo_opts\<lparr>opt_tags := None\<rparr>" demo_doc initial_state] a
  have 1: "init demo_doc (demo_opts\<lparr>opt_tags := None\<rparr>) initial_state =
     (Some (Error missing_options_msg), initial_state)"
    by blast
  from C8_init_checks[of "demo_opts\<lparr>opt_adSlotId := Some ''nowhere''\<rparr>" demo_doc initial_state] b
  have 2: "fst (init demo_doc (demo_opts\<lparr>opt_adSlotId := Some ''nowhere''\<rparr>) initial_state) =
     Some (Error not_located_msg)"
    by blast
  from C8_init_checks[of demo_opts demo_doc initial_state] c
  have 3: "fst (init demo_doc demo_opts initial_state) = None \<and>
      map_option visibleTagCount (config (snd (init demo_doc demo_opts initial_state))) =
        Some (case opt_visibleTagCount demo_opts of None \<Rightarrow> 5 | Some n \<Rightarrow> n)"
    by blast
  from 1 2 3 d nowhere show ?thesis by simp
qed








section \<open>The spacing\<close>

lemma forget_spacing_call:
  "forget_spacing (call_fetchAndRenderAd kw s) = call_fetchAndRenderAd kw (forget_spacing s)"
  by (cases "adSlotEl s")
     (simp_all add: forget_spacing_def call_fetchAndRenderAd_def Let_def render_and_leave_def
        assign_ad_def set_status_def providerList_def)

lemma forget_spacing_highlight:
  "(highlight sel f)\<lparr>tag_spacing := None\<rparr> = highlight sel (f\<lparr>tag_spacing := None\<rparr>)"
  by (simp add: highlight_def)

text \<open>
  The callback does not read the spacing: on two states that differ in the spacing
  alone it throws or not alike, and the states it leaves differ in the spacing alone.
\<close>

lemma handleVisibilityChange_spacing:
  assumes "forget_spacing s' = forget_spacing s"
  shows "fst (handleVisibilityChange entries s') = fst (handleVisibilityChange entries s) \<and>
         forget_spacing (snd (handleVisibilityChange entries s')) =
           forget_spacing (snd (handleVisibilityChange entries s))"
proof (cases "config s")
  case None
  then have "config s' = None"
    using assms by (cases "config s'") (auto simp: forget_spacing_def dest: arg_cong[where f = config])
  with None assms show ?thesis by (simp add: handleVisibilityChange_def)
next
  case (Some c)
  from assms have cfg: "map_option (\<lambda>c. c\<lparr>tagSpacingPx := 0\<rparr>) (config s') =
      map_option (\<lambda>c. c\<lparr>tagSpacingPx := 0\<rparr>) (config s)"
    by (auto simp: forget_spacing_def dest: arg_cong[where f = config])
  then obtain c' where c': "config s' = Some c'" "c'\<lparr>tagSpacingPx := 0\<rparr> = c\<lparr>tagSpacingPx := 0\<rparr>"
    using Some by (cases "config s'") auto
  from c'(2) have same: "visibleTagCount c' = visibleTagCount c" "tags c' = tags c"
    by (auto dest: arg_cong[where f = visibleTagCount] arg_cong[where f = tags])
  from assms have fd: "map_option (\<lambda>f. f\<lparr>tag_spacing := None\<rparr>) (feedEl s') =
      map_option (\<lambda>f. f\<lparr>tag_spacing := None\<rparr>) (feedEl s)"
    by (auto simp: forget_spacing_def dest: arg_cong[where f = feedEl])
  show ?thesis
  proof (cases "feedEl s")
    case None
    then have "feedEl s' = None" using fd by (cases "feedEl s'") auto
    with None Some c' assms show ?thesis by (simp add: handleVisibilityChange_def Let_def)
  next
    case (Some f)
    then obtain f' where f': "feedEl s' = Some f'" "f'\<lparr>tag_spacing := None\<rparr> = f\<lparr>tag_spacing := None\<rparr>"
      using fd by (cases "feedEl s'") auto
    define sel where "sel = trimmed (visibleTagCount c) entries"
    have hl: "forget_spacing (s'\<lparr>feedEl := Some (highlight sel f')\<rparr>) =
        forget_spacing (s\<lparr>feedEl := Some (highlight sel f)\<rparr>)"
    proof -
      have "forget_spacing (s'\<lparr>feedEl := Some (highlight sel f')\<rparr>) =
          (forget_spacing s')\<lparr>feedEl := Some (highlight sel (f'\<lparr>tag_spacing := None\<rparr>))\<rparr>"
        by (simp add: forget_spacing_def forget_spacing_highlight)
      also have "\<dots> = (forget_spacing s)\<lparr>feedEl := Some (highlight sel (f\<lparr>tag_spacing := None\<rparr>))\<rparr>"
        by (simp only: assms f'(2))
      also have "\<dots> = forget_spacing (s\<lparr>feedEl := Some (highlight sel f)\<rparr>)"
        by (simp add: forget_spacing_def forget_spacing_highlight)
      finally show ?thesis .
    qed
    show ?thesis
      using \<open>config s = Some c\<close> Some c'(1) f'(1) same hl
      by (simp add: handleVisibilityChange_def Let_def sel_def[symmetric] forget_spacing_call
            split: option.splits)
  qed
qed

lemma updateSpacing_forget: "forget_spacing (snd (updateSpacing px s)) = forget_spacing s"
  by (cases "config s"; cases "feedEl s")
     (simp_all add: updateSpacing_def forget_spacing_def Let_def)

text \<open>
  C10. \<open>updateSpacing\<close> changes the spacing and nothing else. Whatever the state,
  the state it leaves is the old one in everything but \<open>config.tagSpacingPx\<close> and the
  \<open>--tag-spacing\<close> property of the feed: the count, the tags, the tag elements and
  their highlighting, the ad slot, the observer, the runs and the traces of provider
  calls, warnings and renderings are as before, so no recomputation and no run is
  started. A later callback selects the same tags, builds the same pool and starts the
  same run as it would have without the call. On an initialised module the call throws
  nothing and stores the given spacing in both places.
\<close>

theorem C10_updateSpacing_only_spacing:
  "forget_spacing (snd (updateSpacing px s)) = forget_spacing s \<and>
   map_option visibleTagCount (config (snd (updateSpacing px s))) =
     map_option visibleTagCount (config s) \<and>
   map_option tags (config (snd (updateSpacing px s))) = map_option tags (config s) \<and>
   map_option tag_nodes (feedEl (snd (updateSpacing px s))) = map_option tag_nodes (feedEl s) \<and>
   active_tags (snd (updateSpacing px s)) = active_tags s \<and>
   adSlotEl (snd (updateSpacing px s)) = adSlotEl s \<and>
   observer (snd (updateSpacing px s)) = observer s \<and>
   runs (snd (updateSpacing px s)) = runs s \<and>
   provider_calls (snd (updateSpacing px s)) = provider_calls s \<and>
   console_warnings (snd (updateSpacing px s)) = console_warnings s \<and>
   ad_renders (snd (updateSpacing px s)) = ad_renders s \<and>
   fst (handleVisibilityChange entries (snd (updateSpacing px s))) =
     fst (handleVisibilityChange entries s) \<and>
   forget_spacing (snd (handleVisibilityChange entries (snd (updateSpacing px s)))) =
     forget_spacing (snd (handleVisibilityChange entries s)) \<and>
   (config s = Some c \<and> feedEl s = Some f \<longrightarrow>
      updateSpacing px s =
        (None, s\<lparr>config := Some (c\<lparr>tagSpacingPx := px\<rparr>),
                 feedEl := Some (f\<lparr>tag_spacing := Some (px_string px)\<rparr>)\<rparr>))"
proof -
  have frame: "forget_spacing (snd (updateSpacing px s)) = forget_spacing s"
    by (rule updateSpacing_forget)
  have fields: "map_option visibleTagCount (config (snd (updateSpacing px s))) =
       map_option visibleTagCount (config s) \<and>
     map_option tags (config (snd (updateSpacing px s))) = map_option tags (config s) \<and>
     map_option tag_nodes (feedEl (snd (updateSpacing px s))) = map_option tag_nodes (feedEl s) \<and>
     active_tags (snd (updateSpacing px s)) = active_tags s \<and>
     adSlotEl (snd (updateSpacing px s)) = adSlotEl s \<and>
     observer (snd (updateSpacing px s)) = observer s \<and>
     runs (snd (updateSpacing px s)) = runs s \<and>
     provider_calls (snd (updateSpacing px s)) = provider_calls s \<and>
     console_warnings (snd (updateSpacing px s)) = console_warnings s \<and>
     ad_renders (snd (updateSpacing px s)) = ad_renders s"
    by (cases "config s"; cases "feedEl s")
       (simp_all add: updateSpacing_def Let_def active_tags_def)
  have later: "fst (handleVisibilityChange entries (snd (updateSpacing px s))) =
       fst (handleVisibilityChange entries s) \<and>
     forget_spacing (snd (handleVisibilityChange entries (snd (updateSpacing px s)))) =
       forget_spacing (snd (handleVisibilityChange entries s))"
    using frame by (rule handleVisibilityChange_spacing)
  have ok: "config s = Some c \<and> feedEl s = Some f \<longrightarrow>
      updateSpacing px s =
        (None, s\<lparr>config := Some (c\<lparr>tagSpacingPx := px\<rparr>),
                 feedEl := Some (f\<lparr>tag_spacing := Some (px_string px)\<rparr>)\<rparr>)"
    by (simp add: updateSpacing_def Let_def)
  from frame fields later ok show ?thesis by blast
qed

text \<open>On the sample page \<open>updateSpacing(20)\<close> puts \<open>20px\<close> where \<open>12px\<close> was.\<close>

theorem C10_updateSpacing_only_spacing_witness:
  "map_option tagSpacingPx (config demo_state) = Some 12 \<and>
   map_option tag_spacing (feedEl demo_state) = Some (Some ''12px'') \<and>
   fst (updateSpacing 20 demo_state) = None \<and>
   map_option tagSpacingPx (config (snd (updateSpacing 20 demo_state))) = Some 20 \<and>
   map_option tag_spacing (feedEl (snd (updateSpacing 20 demo_state))) = Some (Some ''20px'') \<and>
   active_tags (snd (updateSpacing 20 demo_state)) = active_tags demo_state \<and>
   runs (snd (updateSpacing 20 demo_state)) = []"
proof -
  define c where "c = \<lparr>feedElementId = ''tag-feed'', adSlotId = ''ad-slot'', visibleTagCount = 5,
      tagSpacingPx = 12, tags = demo_tags\<rparr>"
  define f where "f = renderTags c blank_element"
  have pre: "config demo_state = Some c \<and> feedEl demo_state = Some f"
    by (simp add: demo_state_eq c_def f_def)
  have px12: "px_string 12 = ''12px''" and px20: "px_string 20 = ''20px''"
    by code_simp+
  have before: "map_option tagSpacingPx (config demo_state) = Some 12"
    "map_option tag_spacing (feedEl demo_state) = Some (Some ''12px'')" "runs demo_state = []"
    using pre by (simp_all add: c_def f_def renderTags_def px12 demo_state_eq)
  note th = C10_updateSpacing_only_spacing[of 20 demo_state _ c f]
  from th pre have "updateSpacing 20 demo_state =
      (None, demo_state\<lparr>config := Some (c\<lparr>tagSpacingPx := 20\<rparr>),
               feedEl := Some (f\<lparr>tag_spacing := Some (px_string 20)\<rparr>)\<rparr>)"
    by blast
  then have after: "fst (updateSpacing 20 demo_state) = None"
    "map_option tagSpacingPx (config (snd (updateSpacing 20 demo_state))) = Some 20"
    "map_option tag_spacing (feedEl (snd (updateSpacing 20 demo_state))) = Some (Some ''20px'')"
    by (simp_all add: px20)
  from th have same: "active_tags (snd (updateSpacing 20 demo_state)) = active_tags demo_state"
    "runs (snd (updateSpacing 20 demo_state)) = runs demo_state"
    by blast+
  from before after same show ?thesis by simp
qed

end
